theory Spec2Isabelle
  imports Complex_Main
begin

section \<open>The YellowFin optimizer for MXNet: data model\<close>

text \<open>
  The source is one Python class, \<open>YFOptimizer\<close>, a subclass of
  \<open>mx.optimizer.Optimizer\<close>. Its floating-point scalars are modelled as \<open>real\<close>: the
  theory follows the arithmetic the code writes down, not IEEE rounding, overflow or NaN
  propagation. An \<open>NDArray\<close> is modelled by the list of its elements in storage order;
  every tensor operation the class uses is element-wise or a reduction over all elements,
  so the shape enters only through the number of elements.
\<close>

type_synonym tensor = "real list"

text \<open>
  The ways a call can leave the normal path. \<open>AssertionError\<close> is the \<open>assert\<close> of
  \<open>single_step_mu_lr\<close>; \<open>IndexError\<close> is NumPy's out-of-bounds store;
  \<open>MXNetError\<close> is raised by the library for operands of different shapes (the
  library's broadcasting of differently shaped operands is not followed);
  \<open>ZeroDivisionError\<close> stands for a division by zero: Python numbers raise it, NumPy
  and NDArray scalars continue with \<open>inf\<close> or \<open>nan\<close>, values the real-valued model does
  not have, so in both cases the model stops at the division.
\<close>

datatype error = AssertionError | IndexError | ZeroDivisionError | MXNetError

text \<open>The per-parameter state made by \<open>create_state\<close>: \<open>(momentum, grad_avg, grad_avg_squared)\<close>.\<close>

type_synonym param_state = "tensor \<times> tensor \<times> tensor"

text \<open>The keyword arguments \<open>update\<close> passes on to the library's update operators.\<close>

record kwargs =
  kw_rescale_grad :: real
  kw_momentum :: "real option"
  kw_clip_gradient :: "real option"

text \<open>
  The library routines the class calls and whose code is outside the repository:
  \<open>np.roots\<close>, \<open>mx.optimizer.sgd_mom_update\<close> (returning the new weight and the new
  momentum buffer, both written in place in the source) and \<open>mx.optimizer.sgd_update\<close>.
  They are parameters of the model.
\<close>

record library =
  np_roots :: "real list \<Rightarrow> complex list"
  sgd_mom_update :: "tensor \<Rightarrow> tensor \<Rightarrow> tensor \<Rightarrow> real \<Rightarrow> real \<Rightarrow> kwargs \<Rightarrow> error + tensor \<times> tensor"
  sgd_update :: "tensor \<Rightarrow> tensor \<Rightarrow> real \<Rightarrow> real \<Rightarrow> kwargs \<Rightarrow> error + tensor"

text \<open>
  The optimizer object. The first group of fields belongs to the base class
  \<open>mx.optimizer.Optimizer\<close> (learning rate, per-index multipliers, weight decay, update
  counters); the second group is set by \<open>YFOptimizer.__init__\<close>. A field \<open>self.x\<close> or
  \<open>self._x\<close> of the source is \<open>self_x\<close> here.
\<close>

record YFOptimizer =
  self_lr :: real
  self_lr_scheduler :: "(nat \<Rightarrow> real) option"
  self_lr_mult :: "nat \<rightharpoonup> real"
  self_wd :: real
  self_wd_mult :: "nat \<rightharpoonup> real"
  self_rescale_grad :: real
  self_clip_gradient :: "real option"
  self_begin_num_update :: nat
  self_num_update :: nat
  self_index_update_count :: "nat \<rightharpoonup> nat"
  self_momentum :: real
  self_beta :: real
  self_curv_win_width :: nat
  self_zero_bias :: bool
  self_iter :: nat
  self_h_min :: real
  self_h_max :: real
  self_h_window :: "real list"
  self_grad_norm_avg :: real
  self_h_avg :: real
  self_dist_to_opt_avg :: real

text \<open>The arguments of the constructor, and the defaults of its signature.\<close>

record init_args =
  arg_momentum :: real
  arg_beta :: real
  arg_curv_win_width :: nat
  arg_zero_bias :: bool
  arg_learning_rate :: real
  arg_wd :: real
  arg_rescale_grad :: real
  arg_clip_gradient :: "real option"

definition default_args :: init_args where
  "default_args = \<lparr>arg_momentum = 0, arg_beta = 999 / 1000, arg_curv_win_width = 20,
     arg_zero_bias = True, arg_learning_rate = 1 / 100, arg_wd = 0, arg_rescale_grad = 1,
     arg_clip_gradient = None\<rparr>"

text \<open>
  \<open>__init__\<close>: the width kept in \<open>self.curv_win_width\<close> is the constant 20 (line 25),
  while the window itself is allocated with the argument (line 32).
\<close>

definition init :: "init_args \<Rightarrow> YFOptimizer" where
  "init a = \<lparr>self_lr = arg_learning_rate a, self_lr_scheduler = None,
     self_lr_mult = Map.empty, self_wd = arg_wd a, self_wd_mult = Map.empty,
     self_rescale_grad = arg_rescale_grad a, self_clip_gradient = arg_clip_gradient a,
     self_begin_num_update = 0, self_num_update = 0, self_index_update_count = Map.empty,
     self_momentum = arg_momentum a, self_beta = arg_beta a, self_curv_win_width = 20,
     self_zero_bias = arg_zero_bias a, self_iter = 0, self_h_min = 0, self_h_max = 0,
     self_h_window = replicate (arg_curv_win_width a) 0,
     self_grad_norm_avg = 0, self_h_avg = 0, self_dist_to_opt_avg = 0\<rparr>"

definition create_state :: "nat \<Rightarrow> tensor \<Rightarrow> param_state" where
  "create_state index weight =
     (replicate (length weight) 0, replicate (length weight) 0, replicate (length weight) 0)"

subsection \<open>Base-class helpers\<close>

text \<open>
  \<open>_get_lr\<close>, \<open>_get_wd\<close>, \<open>_update_count\<close> and \<open>set_lr_mult\<close> of
  \<open>mx.optimizer.Optimizer\<close>, for an optimizer created without a symbol and without a
  parameter dictionary, as \<open>create_optimizer('YFOptimizer')\<close> does.
\<close>

definition get_lr :: "YFOptimizer \<Rightarrow> nat \<Rightarrow> real" where
  "get_lr s index =
     (case self_lr_scheduler s of None \<Rightarrow> self_lr s | Some f \<Rightarrow> f (self_num_update s))
     * (case self_lr_mult s index of None \<Rightarrow> 1 | Some m \<Rightarrow> m)"

definition get_wd :: "YFOptimizer \<Rightarrow> nat \<Rightarrow> real" where
  "get_wd s index = self_wd s * (case self_wd_mult s index of None \<Rightarrow> 1 | Some m \<Rightarrow> m)"

definition update_count :: "YFOptimizer \<Rightarrow> nat \<Rightarrow> YFOptimizer" where
  "update_count s index =
     (let c = (case self_index_update_count s index of
                 None \<Rightarrow> self_begin_num_update s | Some c \<Rightarrow> c) + 1
      in s\<lparr>self_index_update_count := (self_index_update_count s)(index \<mapsto> c),
           self_num_update := max c (self_num_update s)\<rparr>)"

definition set_lr_mult :: "YFOptimizer \<Rightarrow> (nat \<rightharpoonup> real) \<Rightarrow> YFOptimizer" where
  "set_lr_mult s args_lr_mult = s\<lparr>self_lr_mult := args_lr_mult\<rparr>"

subsection \<open>Tensor operations\<close>

definition nd_norm :: "tensor \<Rightarrow> real" where
  "nd_norm t = sqrt (sum_list (map (\<lambda>x. x * x) t))"

definition nd_sum :: "tensor \<Rightarrow> real" where
  "nd_sum t = sum_list t"

definition nd_scale :: "real \<Rightarrow> tensor \<Rightarrow> tensor" where
  "nd_scale c t = map (\<lambda>x. c * x) t"

definition nd_add :: "tensor \<Rightarrow> tensor \<Rightarrow> error + tensor" where
  "nd_add a b = (if length a = length b then Inr (map2 (+) a b) else Inl MXNetError)"

definition nd_mul :: "tensor \<Rightarrow> tensor \<Rightarrow> error + tensor" where
  "nd_mul a b = (if length a = length b then Inr (map2 (*) a b) else Inl MXNetError)"

text \<open>\<open>t[:] = v\<close>: the in-place store of a whole tensor.\<close>

definition nd_assign :: "tensor \<Rightarrow> tensor \<Rightarrow> error + tensor" where
  "nd_assign t v = (if length t = length v then Inr v else Inl MXNetError)"

section \<open>The statistics\<close>

text \<open>
  \<open>curvature_range\<close> (lines 47 to 55). \<open>curv_win\<close> is an alias of \<open>self._h_window\<close>,
  so the store at \<open>_iter % curv_win_width\<close> changes the object. The slice
  \<open>curv_win[:valid_end]\<close> is \<open>take valid_end\<close>; NumPy's \<open>min\<close> of an empty slice raises,
  which cannot happen after a successful store.
\<close>

definition curvature_range :: "YFOptimizer \<Rightarrow> tensor \<Rightarrow> (error + real \<times> real) \<times> YFOptimizer" where
  "curvature_range s grad =
     (let beta = self_beta s;
          grad_norm = nd_norm grad
      in if self_curv_win_width s = 0 then (Inl ZeroDivisionError, s)
         else if length (self_h_window s) \<le> self_iter s mod self_curv_win_width s
         then (Inl IndexError, s)
         else
           let curv_win = (self_h_window s)[self_iter s mod self_curv_win_width s := grad_norm ^ 2];
               s1 = s\<lparr>self_h_window := curv_win\<rparr>;
               valid_end = min (self_curv_win_width s1) (self_iter s1 + 1);
               s2 = s1\<lparr>self_h_min := beta * self_h_min s1
                          + (1 - beta) * Min (set (take valid_end curv_win))\<rparr>;
               s3 = s2\<lparr>self_h_max := beta * self_h_max s2
                          + (1 - beta) * Max (set (take valid_end curv_win))\<rparr>
           in (Inr (self_h_min s3, self_h_max s3), s3))"

text \<open>\<open>zero_debias_factor\<close> (lines 57 to 60).\<close>

definition zero_debias_factor :: "YFOptimizer \<Rightarrow> real" where
  "zero_debias_factor s =
     (if self_zero_bias s then 1 else 1 - self_beta s ^ (self_iter s + 1))"

text \<open>
  \<open>grad_variance\<close> (lines 62 to 73). The two stores write the tensors of the parameter
  state in place; the result pairs the returned scalar with the parameter state as the call
  leaves it.
\<close>

definition grad_variance :: "YFOptimizer \<Rightarrow> tensor \<Rightarrow> param_state \<Rightarrow> (error + real) \<times> param_state" where
  "grad_variance s grad state =
     (let beta = self_beta s;
          mom = fst state;
          grad_avg = fst (snd state);
          grad_avg_squared = snd (snd state)
      in case nd_add (nd_scale (self_beta s) grad_avg) (nd_scale (1 - self_beta s) grad) of
           Inl e \<Rightarrow> (Inl e, state)
         | Inr v1 \<Rightarrow>
        (case nd_assign grad_avg v1 of
           Inl e \<Rightarrow> (Inl e, state)
         | Inr grad_avg1 \<Rightarrow>
        (case nd_mul (nd_scale (1 - beta) grad) grad of
           Inl e \<Rightarrow> (Inl e, (mom, grad_avg1, grad_avg_squared))
         | Inr gg \<Rightarrow>
        (case nd_add (nd_scale (self_beta s) grad_avg_squared) gg of
           Inl e \<Rightarrow> (Inl e, (mom, grad_avg1, grad_avg_squared))
         | Inr v2 \<Rightarrow>
        (case nd_assign grad_avg_squared v2 of
           Inl e \<Rightarrow> (Inl e, (mom, grad_avg1, grad_avg_squared))
         | Inr grad_avg_squared1 \<Rightarrow>
        (let debias_factor = zero_debias_factor s;
             grad_norm = nd_norm grad
         in case nd_mul grad_avg1 grad_avg1 of
              Inl e \<Rightarrow> (Inl e, (mom, grad_avg1, grad_avg_squared1))
            | Inr aa \<Rightarrow>
              if debias_factor = 0
              then (Inl ZeroDivisionError, (mom, grad_avg1, grad_avg_squared1))
              else (Inr (nd_sum aa / - (debias_factor ^ 2) + grad_norm / debias_factor),
                    (mom, grad_avg1, grad_avg_squared1))))))))"

text \<open>\<open>dist_to_opt\<close> (lines 75 to 82).\<close>

definition dist_to_opt :: "YFOptimizer \<Rightarrow> tensor \<Rightarrow> (error + real) \<times> YFOptimizer" where
  "dist_to_opt s grad =
     (let beta = self_beta s;
          grad_norm = nd_norm grad;
          s1 = s\<lparr>self_grad_norm_avg := beta * self_grad_norm_avg s + (1 - beta) * grad_norm\<rparr>;
          s2 = s1\<lparr>self_h_avg := beta * self_h_avg s1 + (1 - beta) * grad_norm * grad_norm\<rparr>
      in if self_h_avg s2 = 0 then (Inl ZeroDivisionError, s2)
         else
           let s3 = s2\<lparr>self_dist_to_opt_avg := beta * self_dist_to_opt_avg s2
                          + (1 - beta) * self_grad_norm_avg s2 / self_h_avg s2\<rparr>;
               debias_factor = zero_debias_factor s3
           in if debias_factor = 0 then (Inl ZeroDivisionError, s3)
              else (Inr (self_dist_to_opt_avg s3 / debias_factor), s3))"

section \<open>The tuning solver\<close>

text \<open>
  The mask of lines 89 and 90: real part above 0, real part below 1, imaginary part
  below \<open>1e-5\<close>.
\<close>

definition root_mask :: "complex \<Rightarrow> bool" where
  "root_mask r \<longleftrightarrow> (0 < Re r \<and> Re r < 1) \<and> Im r < 1 / 100000"

text \<open>
  \<open>single_step_mu_lr\<close> (lines 84 to 95). \<open>np.sqrt\<close> of a negative \<open>dr\<close> is \<open>nan\<close>, and
  Python's \<open>max(a, nan)\<close> returns its first argument, so in that case \<open>mu_t\<close> is the
  squared root alone. The method reads and writes no field of \<open>self\<close>; the state is
  returned as it came.
\<close>

definition single_step_mu_lr ::
    "library \<Rightarrow> YFOptimizer \<Rightarrow> real \<Rightarrow> real \<Rightarrow> real \<Rightarrow> real \<Rightarrow> (error + real \<times> real) \<times> YFOptimizer" where
  "single_step_mu_lr lib s C D h_min h_max =
     (if C = 0 then (Inl ZeroDivisionError, s)
      else
        let coef = [- 1, 3, - (3 + D ^ 2 * h_min ^ 2 / 2 / C), 1];
            roots = np_roots lib coef;
            root = filter root_mask roots
        in if length root \<noteq> 1 then (Inl AssertionError, s)
           else if h_min = 0 then (Inl ZeroDivisionError, s)
           else
             let dr = h_max / h_min;
                 mu_t = (if dr < 0 then Re (hd root) ^ 2
                         else max (Re (hd root) ^ 2) (((sqrt dr - 1) / (sqrt dr + 1)) ^ 2));
                 lr_t = (1 - sqrt mu_t) ^ 2 / h_min
             in (Inr (mu_t, lr_t), s))"

section \<open>The update\<close>

text \<open>
  \<open>after_apply\<close> (lines 97 to 104). An exception leaves the object and the parameter
  state as they are at the point where it is raised.
\<close>

definition after_apply ::
    "library \<Rightarrow> YFOptimizer \<Rightarrow> nat \<Rightarrow> tensor \<Rightarrow> param_state \<Rightarrow> real \<Rightarrow> real
       \<Rightarrow> (error + unit) \<times> YFOptimizer \<times> param_state" where
  "after_apply lib s index grad state lr momentum =
     (let beta = self_beta s in
      case curvature_range s grad of
        (Inl e, s1) \<Rightarrow> (Inl e, s1, state)
      | (Inr (h_min, h_max), s1) \<Rightarrow>
     (case grad_variance s1 grad state of
        (Inl e, state1) \<Rightarrow> (Inl e, s1, state1)
      | (Inr C, state1) \<Rightarrow>
     (case dist_to_opt s1 grad of
        (Inl e, s2) \<Rightarrow> (Inl e, s2, state1)
      | (Inr D, s2) \<Rightarrow>
     (case single_step_mu_lr lib s2 C D h_min h_max of
        (Inl e, s3) \<Rightarrow> (Inl e, s3, state1)
      | (Inr (mu_t, lr_t), s3) \<Rightarrow>
          (Inr (),
           set_lr_mult (s3\<lparr>self_momentum := beta * momentum + (1 - beta) * mu_t\<rparr>)
             [index \<mapsto> beta * lr + (1 - beta) * lr_t],
           state1)))))"

text \<open>
  The keyword arguments built in lines 113 to 117: \<open>momentum\<close> is passed only when it is
  positive, \<open>clip_gradient\<close> only when it is set and not zero.
\<close>

definition update_kwargs :: "YFOptimizer \<Rightarrow> kwargs" where
  "update_kwargs s =
     \<lparr>kw_rescale_grad = self_rescale_grad s,
      kw_momentum = (if self_momentum s > 0 then Some (self_momentum s) else None),
      kw_clip_gradient = (case self_clip_gradient s of
                            None \<Rightarrow> None
                          | Some c \<Rightarrow> if c = 0 then None else Some c)\<rparr>"

text \<open>
  \<open>update\<close> (lines 106 to 126). The result is the outcome, the optimizer, the weight and
  the parameter state after the call. A library operator that raises is taken to leave
  its operands unchanged.
\<close>

definition update ::
    "library \<Rightarrow> YFOptimizer \<Rightarrow> nat \<Rightarrow> tensor \<Rightarrow> tensor \<Rightarrow> param_state option
       \<Rightarrow> (error + unit) \<times> YFOptimizer \<times> tensor \<times> param_state option" where
  "update lib s index weight grad state =
     (let lr = get_lr s index;
          wd = get_wd s index;
          s1 = update_count s index;
          kw = update_kwargs s1
      in case state of
           Some st \<Rightarrow>
             (case sgd_mom_update lib weight grad (fst st) lr wd kw of
                Inl e \<Rightarrow> (Inl e, s1, weight, state)
              | Inr (weight1, mom1) \<Rightarrow>
                 (case after_apply lib s1 index grad (mom1, snd st) lr (self_momentum s1) of
                    (Inl e, s2, st2) \<Rightarrow> (Inl e, s2, weight1, Some st2)
                  | (Inr u, s2, st2) \<Rightarrow>
                      (Inr (), s2\<lparr>self_iter := self_iter s2 + 1\<rparr>, weight1, Some st2)))
         | None \<Rightarrow>
             (case sgd_update lib weight grad lr wd kw of
                Inl e \<Rightarrow> (Inl e, s1, weight, None)
              | Inr weight1 \<Rightarrow>
                  (Inr (), s1\<lparr>self_iter := self_iter s1 + 1\<rparr>, weight1, None)))"

section \<open>Specification-side definitions and a concrete library\<close>

text \<open>
  What \<open>np.roots\<close> is meant to return: the roots, with multiplicity, of the polynomial
  whose coefficients are given from the highest degree down. \<open>polyval\<close> evaluates the
  polynomial by Horner's rule; \<open>exact_roots\<close> says that the polynomial is its leading
  coefficient times the product of the linear factors of the list.
\<close>

definition polyval :: "real list \<Rightarrow> complex \<Rightarrow> complex" where
  "polyval coef x = foldl (\<lambda>acc c. acc * x + of_real c) 0 coef"

definition exact_roots :: "real list \<Rightarrow> complex list \<Rightarrow> bool" where
  "exact_roots coef rs \<longleftrightarrow>
     (\<forall>x. polyval coef x = of_real (hd coef) * prod_list (map (\<lambda>r. x - r) rs))"

text \<open>
  The filter as the specification words it: real part in the open interval from 0 to 1
  and the absolute value of the imaginary part below \<open>1e-5\<close>. To be compared with
  \<open>root_mask\<close>, the filter of the source.
\<close>

definition spec_root_mask :: "complex \<Rightarrow> bool" where
  "spec_root_mask r \<longleftrightarrow> (0 < Re r \<and> Re r < 1) \<and> \<bar>Im r\<bar> < 1 / 100000"

text \<open>
  A root finder that knows three cubics of the solver's family, each with rational roots:
  \<open>-x^3 + 3x^2 - 3.01x + 1\<close>, \<open>-x^3 + 3x^2 - 2.5x + 1\<close> and \<open>-x^3 + 3x^2 - 3x + 1\<close>.
\<close>

definition sample_roots :: "real list \<Rightarrow> complex list" where
  "sample_roots coef =
     (if coef = [- 1, 3, - (301 / 100), 1]
      then [Complex (4 / 5) 0, Complex (11 / 10) (1 / 5), Complex (11 / 10) (- (1 / 5))]
      else if coef = [- 1, 3, - (5 / 2), 1]
      then [Complex 2 0, Complex (1 / 2) (1 / 2), Complex (1 / 2) (- (1 / 2))]
      else if coef = [- 1, 3, - 3, 1]
      then [Complex 1 0, Complex 1 0, Complex 1 0]
      else [])"

text \<open>
  The two update operators as the MXNet documentation gives them: the gradient is
  rescaled, clipped when a non-negative bound is passed, and the weight decay is added;
  \<open>sgd_mom_update\<close> computes \<open>mom = momentum * mom - lr * (grad + wd * weight)\<close> and
  \<open>weight = weight + mom\<close>, \<open>sgd_update\<close> computes
  \<open>weight = weight - lr * (grad + wd * weight)\<close> and has no \<open>momentum\<close> argument.
\<close>

definition prepared_grad :: "kwargs \<Rightarrow> real \<Rightarrow> real" where
  "prepared_grad kw g =
     (case kw_clip_gradient kw of
        None \<Rightarrow> kw_rescale_grad kw * g
      | Some c \<Rightarrow> if 0 \<le> c then max (- c) (min c (kw_rescale_grad kw * g))
                  else kw_rescale_grad kw * g)"

definition mx_sgd_mom_update ::
    "tensor \<Rightarrow> tensor \<Rightarrow> tensor \<Rightarrow> real \<Rightarrow> real \<Rightarrow> kwargs \<Rightarrow> error + tensor \<times> tensor" where
  "mx_sgd_mom_update weight grad mom lr wd kw =
     (if length grad = length weight \<and> length mom = length weight
      then
        let m = (case kw_momentum kw of None \<Rightarrow> 0 | Some m \<Rightarrow> m);
            mom1 = map (\<lambda>(w, g, v). m * v - lr * (prepared_grad kw g + wd * w))
                     (zip weight (zip grad mom))
        in Inr (map2 (+) weight mom1, mom1)
      else Inl MXNetError)"

definition mx_sgd_update :: "tensor \<Rightarrow> tensor \<Rightarrow> real \<Rightarrow> real \<Rightarrow> kwargs \<Rightarrow> error + tensor" where
  "mx_sgd_update weight grad lr wd kw =
     (if length grad = length weight \<and> kw_momentum kw = None
      then Inr (map2 (\<lambda>w g. w - lr * (prepared_grad kw g + wd * w)) weight grad)
      else Inl MXNetError)"

definition sample_lib :: library where
  "sample_lib = \<lparr>np_roots = sample_roots, sgd_mom_update = mx_sgd_mom_update,
     sgd_update = mx_sgd_update\<rparr>"

text \<open>
  The caller: the training loop calls \<open>update\<close> once for every gradient of a parameter,
  with the weight and the parameter state the previous call left; an exception ends the
  run.
\<close>

fun update_all ::
    "library \<Rightarrow> nat \<Rightarrow> tensor list \<Rightarrow> (error + unit) \<times> YFOptimizer \<times> tensor \<times> param_state option
       \<Rightarrow> (error + unit) \<times> YFOptimizer \<times> tensor \<times> param_state option" where
  "update_all lib index [] r = r"
| "update_all lib index (grad # grads) (Inl e, s, weight, state) = (Inl e, s, weight, state)"
| "update_all lib index (grad # grads) (Inr u, s, weight, state) =
     update_all lib index grads (update lib s index weight grad state)"



text \<open>
  The window after the gradients \<open>seen\<close>: the step count is their number, and each of
  the last \<open>curv_win_width\<close> squared norms sits at its step index modulo the width.
\<close>

definition window_holds :: "YFOptimizer \<Rightarrow> tensor list \<Rightarrow> bool" where
  "window_holds s seen \<longleftrightarrow>
     self_iter s = length seen
     \<and> (\<forall>k < length seen. length seen \<le> k + self_curv_win_width s \<longrightarrow>
           self_h_window s ! (k mod self_curv_win_width s) = nd_norm (seen ! k) ^ 2)"

text \<open>
  An optimizer whose base-class settings are the defaults: no momentum, no clipping, no
  rescaling, no weight decay, no scheduler, no multipliers, learning rate 0.01.
\<close>

definition base_defaults :: "YFOptimizer \<Rightarrow> bool" where
  "base_defaults s \<longleftrightarrow>
     self_momentum s = 0 \<and> self_clip_gradient s = None \<and> self_rescale_grad s = 1
     \<and> self_wd s = 0 \<and> self_lr_scheduler s = None \<and> self_lr_mult s = Map.empty
     \<and> self_lr s = 1 / 100"

section \<open>The debias factor\<close>

text \<open>
  C8. \<open>zero_debias_factor\<close> returns exactly 1 when \<open>zero_bias\<close> is true, whatever the
  step count, and \<open>1 - beta ^ (step_count + 1)\<close> when it is false; \<open>zero_bias\<close> is true in
  an optimizer constructed with the default arguments.
\<close>

theorem zero_debias_factor_value:
  "(self_zero_bias s \<longrightarrow> zero_debias_factor s = 1)
   \<and> (\<not> self_zero_bias s \<longrightarrow> zero_debias_factor s = 1 - self_beta s ^ (self_iter s + 1))
   \<and> self_zero_bias (init default_args)"
  by (simp add: zero_debias_factor_def init_def default_args_def)

theorem zero_debias_factor_value_witness:
  "zero_debias_factor (init default_args) = 1
   \<and> zero_debias_factor ((init default_args)\<lparr>self_zero_bias := False, self_iter := 2\<rparr>)
       = 1 - (999 / 1000) ^ 3"
  using zero_debias_factor_value [of "init default_args"]
    zero_debias_factor_value [of "(init default_args)\<lparr>self_zero_bias := False, self_iter := 2\<rparr>"]
  by (simp add: init_def default_args_def)

section \<open>The gradient variance\<close>

lemma nd_add_scale:
  "length a = length g \<Longrightarrow>
   nd_add (nd_scale b a) (nd_scale c g) = Inr (map2 (\<lambda>x y. b * x + c * y) a g)"
  by (auto simp: nd_add_def nd_scale_def intro!: nth_equalityI)

lemma nd_mul_scale_self: "nd_mul (nd_scale c g) g = Inr (map (\<lambda>x. c * x * x) g)"
  by (auto simp: nd_mul_def nd_scale_def intro!: nth_equalityI)

lemma nd_add_scale_sq:
  "length a = length g \<Longrightarrow>
   nd_add (nd_scale b a) (map (\<lambda>x. c * x * x) g) = Inr (map2 (\<lambda>x y. b * x + c * y * y) a g)"
  by (auto simp: nd_add_def nd_scale_def intro!: nth_equalityI)

lemma nd_mul_self: "nd_mul a a = Inr (map (\<lambda>x. x * x) a)"
  by (auto simp: nd_mul_def intro!: nth_equalityI)

lemma grad_variance_unfolded:
  assumes "length grad_avg = length grad" and "length grad_avg_squared = length grad"
    and "zero_debias_factor s \<noteq> 0"
  shows "grad_variance s grad (mom, grad_avg, grad_avg_squared) =
     (Inr (nd_sum (map (\<lambda>x. x * x)
                     (map2 (\<lambda>a g. self_beta s * a + (1 - self_beta s) * g) grad_avg grad))
             / - (zero_debias_factor s ^ 2)
           + nd_norm grad / zero_debias_factor s),
      (mom,
       map2 (\<lambda>a g. self_beta s * a + (1 - self_beta s) * g) grad_avg grad,
       map2 (\<lambda>a g. self_beta s * a + (1 - self_beta s) * g * g) grad_avg_squared grad))"
  using assms
  by (simp add: grad_variance_def nd_add_scale nd_mul_scale_self nd_add_scale_sq nd_mul_self
      nd_assign_def Let_def)

text \<open>
  C2. For a gradient and a parameter state of the same size, and a debias factor other
  than zero, \<open>grad_variance\<close> stores \<open>beta * grad_avg + (1 - beta) * grad\<close> in \<open>grad_avg\<close>
  and \<open>beta * grad_avg_squared + (1 - beta) * grad * grad\<close> in \<open>grad_avg_squared\<close>,
  element by element, and returns the sum of the squares of the new \<open>grad_avg\<close> divided by
  \<open>- debias^2\<close>, plus the norm of the gradient divided by \<open>debias\<close>. The returned
  value is the same for every other content of \<open>grad_avg_squared\<close>.
\<close>

theorem grad_variance_updates_and_returns:
  assumes "length grad_avg = length grad" and "length grad_avg_squared = length grad"
    and "zero_debias_factor s \<noteq> 0"
  shows "grad_variance s grad (mom, grad_avg, grad_avg_squared) =
     (let beta = self_beta s;
          grad_avg1 = map2 (\<lambda>a g. beta * a + (1 - beta) * g) grad_avg grad;
          grad_avg_squared1 = map2 (\<lambda>a g. beta * a + (1 - beta) * g * g) grad_avg_squared grad;
          debias = zero_debias_factor s
      in (Inr (nd_sum (map (\<lambda>x. x * x) grad_avg1) / - (debias ^ 2) + nd_norm grad / debias),
          (mom, grad_avg1, grad_avg_squared1)))
     \<and> (length other = length grad \<longrightarrow>
          fst (grad_variance s grad (mom, grad_avg, other))
            = fst (grad_variance s grad (mom, grad_avg, grad_avg_squared)))"
  using assms by (simp add: grad_variance_unfolded Let_def)

theorem grad_variance_updates_and_returns_witness:
  "length [1 / 2 :: real] = length [1 :: real] \<and> length [0 :: real] = length [1 :: real]
   \<and> zero_debias_factor (init default_args) \<noteq> 0
   \<and> grad_variance (init default_args) [1] ([0], [1 / 2], [0])
       = (Inr (1 - (1001 / 2000) ^ 2), ([0], [1001 / 2000], [1 / 1000]))
   \<and> fst (grad_variance (init default_args) [1] ([0], [1 / 2], [7]))
       = fst (grad_variance (init default_args) [1] ([0], [1 / 2], [0]))"
proof -
  have z: "zero_debias_factor (init default_args) = 1"
    by (simp add: zero_debias_factor_def init_def default_args_def)
  have b: "self_beta (init default_args) = 999 / 1000"
    by (simp add: init_def default_args_def)
  have l: "length [1 / 2 :: real] = length [1 :: real]" "length [0 :: real] = length [1 :: real]"
    "length [7 :: real] = length [1 :: real]"
    by simp_all
  have n: "zero_debias_factor (init default_args) \<noteq> 0"
    by (simp add: z)
  show ?thesis
    using grad_variance_updates_and_returns [OF l(1) l(2) n, of "[0]" "[7]"]
    by (simp add: z b nd_sum_def nd_norm_def Let_def power2_eq_square)
qed

section \<open>The tuning solver\<close>

text \<open>
  The list \<open>[-1, 3, p2, 1]\<close> is read from the highest degree down, as \<open>np.roots\<close>
  does: \<open>p2\<close> is the coefficient of \<open>x\<close>.
\<close>

lemma polyval_cubic:
  "polyval [- 1, 3, p2, 1] x = - (x ^ 3) + 3 * x ^ 2 + of_real p2 * x + 1"
  by (simp add: polyval_def power3_eq_cube power2_eq_square algebra_simps)

lemma exact_roots_sample_301:
  "exact_roots [- 1, 3, - (301 / 100), 1] (sample_roots [- 1, 3, - (301 / 100), 1])"
  unfolding exact_roots_def polyval_def sample_roots_def
  by (simp add: complex_eq_iff algebra_simps)

lemma exact_roots_sample_52:
  "exact_roots [- 1, 3, - (5 / 2), 1] (sample_roots [- 1, 3, - (5 / 2), 1])"
  unfolding exact_roots_def polyval_def sample_roots_def
  by (simp add: complex_eq_iff algebra_simps)


lemma survivors_sample_301:
  "filter root_mask (np_roots sample_lib [- 1, 3, - (301 / 100), 1]) = [Complex (4 / 5) 0]"
  by (simp add: sample_lib_def sample_roots_def root_mask_def)

lemma sqrt_16_25: "sqrt (16 / 25) = 4 / 5"
  by (rule real_sqrt_unique) (simp_all add: power2_eq_square)

text \<open>The source's mask is the specification's mask plus the roots below the real axis.\<close>

lemma root_mask_spec:
  "root_mask r \<longleftrightarrow> spec_root_mask r \<or> (0 < Re r \<and> Re r < 1 \<and> Im r \<le> - (1 / 100000))"
  by (auto simp: root_mask_def spec_root_mask_def)


lemma single_step_mu_lr_returns:
  assumes "C \<noteq> 0" and "h_min \<noteq> 0" and "0 \<le> h_max / h_min"
    and "filter root_mask (np_roots lib [- 1, 3, - (3 + D ^ 2 * h_min ^ 2 / (2 * C)), 1]) = [r]"
  shows "single_step_mu_lr lib s C D h_min h_max =
     (Inr (max (Re r ^ 2) (((sqrt (h_max / h_min) - 1) / (sqrt (h_max / h_min) + 1)) ^ 2),
           (1 - sqrt (max (Re r ^ 2) (((sqrt (h_max / h_min) - 1) / (sqrt (h_max / h_min) + 1)) ^ 2))) ^ 2
             / h_min), s)"
  using assms by (simp add: single_step_mu_lr_def Let_def)

text \<open>The root count is checked on the source's mask: a count other than one fails.\<close>

lemma single_step_mu_lr_root_count:
  assumes "C \<noteq> 0"
    and "length (filter root_mask
           (np_roots lib [- 1, 3, - (3 + D ^ 2 * h_min ^ 2 / (2 * C)), 1])) \<noteq> 1"
  shows "single_step_mu_lr lib s C D h_min h_max = (Inl AssertionError, s)"
  using assms by (simp add: single_step_mu_lr_def Let_def)

text \<open>
  C1. At \<open>C = -1\<close>, \<open>D = 1\<close>, \<open>h_min = 1\<close>, \<open>h_max = 1\<close> the cubic is
  \<open>-x^3 + 3x^2 - 2.5x + 1\<close>, with the roots \<open>2\<close>, \<open>0.5 + 0.5i\<close> and \<open>0.5 - 0.5i\<close>.
  No root passes the filter as the specification words it, yet the source's mask keeps
  \<open>0.5 - 0.5i\<close>, whose imaginary part is below \<open>1e-5\<close> without being small, and the
  solver returns \<open>mu = 0.25\<close>, \<open>lr = 0.25\<close> instead of failing.
\<close>

theorem single_step_mu_lr_keeps_complex_root:
  "single_step_mu_lr sample_lib (init default_args) (- 1) 1 1 1
     = (Inr (1 / 4, 1 / 4), init default_args)
   \<and> exact_roots [- 1, 3, - (5 / 2), 1] (np_roots sample_lib [- 1, 3, - (5 / 2), 1])
   \<and> filter root_mask (np_roots sample_lib [- 1, 3, - (5 / 2), 1]) = [Complex (1 / 2) (- (1 / 2))]
   \<and> filter spec_root_mask (np_roots sample_lib [- 1, 3, - (5 / 2), 1]) = []"
proof -
  have m: "filter root_mask (sample_roots [- 1, 3, - (5 / 2), 1]) = [Complex (1 / 2) (- (1 / 2))]"
    by (simp add: sample_roots_def root_mask_def)
  have sq: "sqrt (1 / 4) = 1 / 2"
    by (simp add: real_sqrt_divide)
  have "single_step_mu_lr sample_lib (init default_args) (- 1) 1 1 1
          = (Inr (1 / 4, 1 / 4), init default_args)"
    by (simp add: single_step_mu_lr_def sample_lib_def Let_def power2_eq_square m sq)
  moreover have "filter spec_root_mask (sample_roots [- 1, 3, - (5 / 2), 1]) = []"
    by (simp add: sample_roots_def spec_root_mask_def)
  ultimately show ?thesis
    using m exact_roots_sample_52 by (simp add: sample_lib_def)
qed




text \<open>
  C5. When exactly one root \<open>r\<close> of the cubic with the coefficients
  \<open>[-1, 3, p2, 1]\<close>, \<open>p2 = -(3 + D^2 * h_min^2 / (2 * C))\<close>, passes the mask, and \<open>C\<close> and
  \<open>h_min\<close> are not zero and \<open>dr = h_max / h_min\<close> is not negative, the solver returns
  \<open>mu = max (r^2) (((sqrt dr - 1) / (sqrt dr + 1))^2)\<close> and
  \<open>lr = (1 - sqrt mu)^2 / h_min\<close>.
\<close>

theorem single_step_mu_lr_formula:
  assumes "C \<noteq> 0" and "h_min \<noteq> 0" and "0 \<le> h_max / h_min"
    and "filter root_mask (np_roots lib [- 1, 3, - (3 + D ^ 2 * h_min ^ 2 / (2 * C)), 1]) = [r]"
  shows "single_step_mu_lr lib s C D h_min h_max =
     (let dr = h_max / h_min;
          mu = max (Re r ^ 2) (((sqrt dr - 1) / (sqrt dr + 1)) ^ 2);
          lr = (1 - sqrt mu) ^ 2 / h_min
      in (Inr (mu, lr), s))"
  using single_step_mu_lr_returns [OF assms] by (simp add: Let_def)

theorem single_step_mu_lr_formula_witness:
  "(50 :: real) \<noteq> 0 \<and> (1 :: real) \<noteq> 0 \<and> (0 :: real) \<le> 4 / 1
   \<and> filter root_mask (np_roots sample_lib [- 1, 3, - (3 + 1 ^ 2 * 1 ^ 2 / (2 * 50)), 1])
       = [Complex (4 / 5) 0]
   \<and> single_step_mu_lr sample_lib (init default_args) 50 1 1 4
       = (Inr (16 / 25, 1 / 25), init default_args)"
proof -
  have h: "filter root_mask (np_roots sample_lib [- 1, 3, - (3 + 1 ^ 2 * 1 ^ 2 / (2 * 50)), 1])
             = [Complex (4 / 5) 0]"
    using survivors_sample_301 by simp
  have "single_step_mu_lr sample_lib (init default_args) 50 1 1 4
          = (Inr (16 / 25, 1 / 25), init default_args)"
    using single_step_mu_lr_formula [OF _ _ _ h, of 4 "init default_args"]
    by (simp add: Let_def power2_eq_square sqrt_16_25)
  then show ?thesis using h by simp
qed



section \<open>What each method changes\<close>





lemma curvature_range_snd:
  "snd (curvature_range s grad) =
     (if self_curv_win_width s = 0 \<or> length (self_h_window s) \<le> self_iter s mod self_curv_win_width s
      then s
      else s\<lparr>self_h_window := (self_h_window s)[self_iter s mod self_curv_win_width s := nd_norm grad ^ 2],
             self_h_min := self_beta s * self_h_min s + (1 - self_beta s)
                * Min (set (take (min (self_curv_win_width s) (self_iter s + 1))
                     ((self_h_window s)[self_iter s mod self_curv_win_width s := nd_norm grad ^ 2]))),
             self_h_max := self_beta s * self_h_max s + (1 - self_beta s)
                * Max (set (take (min (self_curv_win_width s) (self_iter s + 1))
                     ((self_h_window s)[self_iter s mod self_curv_win_width s := nd_norm grad ^ 2])))\<rparr>)"
  by (simp add: curvature_range_def Let_def)






lemma single_step_mu_lr_snd: "snd (single_step_mu_lr lib s C D h_min h_max) = s"
  by (simp add: single_step_mu_lr_def Let_def)

lemma update_count_frame:
  "self_beta (update_count s index) = self_beta s"
  "self_iter (update_count s index) = self_iter s"
  "self_momentum (update_count s index) = self_momentum s"
  "self_lr_mult (update_count s index) = self_lr_mult s"
  "self_h_min (update_count s index) = self_h_min s"
  "self_h_max (update_count s index) = self_h_max s"
  "self_h_window (update_count s index) = self_h_window s"
  "self_rescale_grad (update_count s index) = self_rescale_grad s"
  "self_clip_gradient (update_count s index) = self_clip_gradient s"
  "self_grad_norm_avg (update_count s index) = self_grad_norm_avg s"
  "self_h_avg (update_count s index) = self_h_avg s"
  "self_dist_to_opt_avg (update_count s index) = self_dist_to_opt_avg s"
  "self_curv_win_width (update_count s index) = self_curv_win_width s"
  "self_zero_bias (update_count s index) = self_zero_bias s"
  by (simp_all add: update_count_def Let_def)








lemma after_apply_frame:
  "self_iter (fst (snd (after_apply lib s index grad state lr momentum))) = self_iter s"
  "self_curv_win_width (fst (snd (after_apply lib s index grad state lr momentum))) = self_curv_win_width s"
  "self_h_window (fst (snd (after_apply lib s index grad state lr momentum)))
     = self_h_window (snd (curvature_range s grad))"
proof -
  obtain r1 s1 where c: "curvature_range s grad = (r1, s1)" by (cases "curvature_range s grad")
  obtain r2 s2 where d: "dist_to_opt s1 grad = (r2, s2)" by (cases "dist_to_opt s1 grad")
  have s1: "s1 = snd (curvature_range s grad)" using c by simp
  have s2: "s2 = snd (dist_to_opt s1 grad)" using d by simp
  have e: "x = s2" if "single_step_mu_lr lib s2 C D a b = (r, x)" for C D a b r x
    using that single_step_mu_lr_snd [of lib s2 C D a b] by simp
  have i1: "self_iter s1 = self_iter s" "self_curv_win_width s1 = self_curv_win_width s"
    by (simp_all add: s1 curvature_range_snd)
  have i2: "self_iter s2 = self_iter s" "self_curv_win_width s2 = self_curv_win_width s"
    "self_h_window s2 = self_h_window s1"
    using i1 by (simp_all add: s2 dist_to_opt_def Let_def)
  show "self_iter (fst (snd (after_apply lib s index grad state lr momentum))) = self_iter s"
    using c d i1 i2
    by (auto simp: after_apply_def set_lr_mult_def Let_def split: prod.splits sum.splits dest!: e)
  show "self_curv_win_width (fst (snd (after_apply lib s index grad state lr momentum))) = self_curv_win_width s"
    using c d i1 i2
    by (auto simp: after_apply_def set_lr_mult_def Let_def split: prod.splits sum.splits dest!: e)
  show "self_h_window (fst (snd (after_apply lib s index grad state lr momentum)))
     = self_h_window (snd (curvature_range s grad))"
    using c d i1 i2
    by (auto simp: after_apply_def set_lr_mult_def Let_def split: prod.splits sum.splits dest!: e)
qed

section \<open>The curvature window\<close>

lemma update_with_state_ok:
  assumes "update lib s index weight grad (Some st) = (Inr (), s', weight', state')"
  shows "\<exists>st0 lr m st1.
     s' = (fst (snd (after_apply lib (update_count s index) index grad st0 lr m)))
            \<lparr>self_iter := self_iter (fst (snd (after_apply lib (update_count s index) index grad st0 lr m))) + 1\<rparr>
     \<and> fst (after_apply lib (update_count s index) index grad st0 lr m) = Inr ()
     \<and> state' = Some st1"
proof (cases "sgd_mom_update lib weight grad (fst st) (get_lr s index) (get_wd s index)
                (update_kwargs (update_count s index))")
  case (Inl e)
  then show ?thesis using assms by (simp add: update_def Let_def)
next
  case (Inr p)
  obtain weight1 mom1 where p: "p = (weight1, mom1)" by (cases p)
  obtain r s2 st2 where a: "after_apply lib (update_count s index) index grad (mom1, snd st)
      (get_lr s index) (self_momentum (update_count s index)) = (r, s2, st2)"
    by (metis prod_cases3)
  have "r = Inr () \<and> s' = s2\<lparr>self_iter := self_iter s2 + 1\<rparr> \<and> state' = Some st2"
    using assms Inr p a by (cases r) (simp_all add: update_def Let_def)
  then show ?thesis
    using a by (metis fst_conv snd_conv)
qed

lemma after_apply_ok_curvature:
  assumes "fst (after_apply lib s index grad state lr momentum) = Inr ()"
  shows "\<exists>p. fst (curvature_range s grad) = Inr p"
proof (cases "curvature_range s grad")
  case (Pair r s1)
  then show ?thesis using assms by (cases r) (simp_all add: after_apply_def Let_def)
qed

lemma curvature_range_ok_window:
  assumes "fst (curvature_range s grad) = Inr p"
  shows "self_curv_win_width s \<noteq> 0"
    and "self_iter s mod self_curv_win_width s < length (self_h_window s)"
    and "self_h_window (snd (curvature_range s grad))
           = (self_h_window s)[self_iter s mod self_curv_win_width s := nd_norm grad ^ 2]"
  using assms by (auto simp: curvature_range_def Let_def split: if_splits)

lemma mod_window_distinct:
  fixes k n w :: nat
  assumes "k < n" and "n < k + w"
  shows "k mod w \<noteq> n mod w"
proof
  assume e: "k mod w = n mod w"
  then have "w dvd n - k"
    using assms(1) by (metis mod_eq_dvd_iff_nat less_imp_le)
  moreover have "0 < n - k" "n - k < w" using assms by simp_all
  ultimately show False by (metis dvd_imp_le not_less)
qed

lemma window_holds_update:
  assumes J: "window_holds s seen"
    and u: "update lib s index weight grad (Some st) = (Inr (), s', weight', state')"
  shows "window_holds s' (seen @ [grad]) \<and> self_curv_win_width s' = self_curv_win_width s
         \<and> length (self_h_window s') = length (self_h_window s) \<and> (\<exists>st1. state' = Some st1)"
proof -
  let ?s0 = "update_count s index"
  let ?w = "self_curv_win_width s"
  obtain st0 lr m st1 where s': "s' = (fst (snd (after_apply lib ?s0 index grad st0 lr m)))
            \<lparr>self_iter := self_iter (fst (snd (after_apply lib ?s0 index grad st0 lr m))) + 1\<rparr>"
    and ok: "fst (after_apply lib ?s0 index grad st0 lr m) = Inr ()"
    and st: "state' = Some st1"
    using update_with_state_ok [OF u] by blast
  obtain p where c: "fst (curvature_range ?s0 grad) = Inr p"
    using after_apply_ok_curvature [OF ok] by blast
  have w0: "?w \<noteq> 0" and lt: "self_iter s mod ?w < length (self_h_window s)"
    and win: "self_h_window (snd (curvature_range ?s0 grad))
                = (self_h_window s)[self_iter s mod ?w := nd_norm grad ^ 2]"
    using curvature_range_ok_window [OF c] by (simp_all add: update_count_frame)
  have it: "self_iter s' = self_iter s + 1"
    by (simp add: s' after_apply_frame update_count_frame)
  have wd: "self_curv_win_width s' = ?w"
    by (simp add: s' after_apply_frame update_count_frame)
  have hw: "self_h_window s' = (self_h_window s)[self_iter s mod ?w := nd_norm grad ^ 2]"
    by (simp add: s' after_apply_frame win)
  have n: "self_iter s = length seen" using J by (simp add: window_holds_def)
  have "self_h_window s' ! (k mod ?w) = nd_norm ((seen @ [grad]) ! k) ^ 2"
    if k: "k < length (seen @ [grad])" and r: "length (seen @ [grad]) \<le> k + ?w" for k
  proof (cases "k = length seen")
    case True
    then show ?thesis using lt n by (simp add: hw)
  next
    case False
    then have k': "k < length seen" using k by simp
    then have "length seen < k + ?w" using r by simp
    then have "k mod ?w \<noteq> length seen mod ?w"
      using mod_window_distinct [OF k'] by blast
    moreover have "self_h_window s ! (k mod ?w) = nd_norm (seen ! k) ^ 2"
      using J k' r by (simp add: window_holds_def)
    ultimately show ?thesis using k' n by (simp add: hw nth_append)
  qed
  then have "window_holds s' (seen @ [grad])"
    using it n wd by (simp add: window_holds_def)
  moreover have "length (self_h_window s') = length (self_h_window s)"
    by (simp add: hw)
  ultimately show ?thesis using wd st by blast
qed

lemma window_holds_run:
  assumes "window_holds s seen"
    and "update_all lib index grads (Inr (), s, weight, Some st) = (Inr (), s', weight', state')"
  shows "window_holds s' (seen @ grads) \<and> self_curv_win_width s' = self_curv_win_width s
         \<and> length (self_h_window s') = length (self_h_window s)"
  using assms
proof (induction grads arbitrary: s seen weight st)
  case Nil
  then show ?case by simp
next
  case (Cons grad grads)
  obtain r s1 weight1 state1 where u: "update lib s index weight grad (Some st) = (r, s1, weight1, state1)"
    by (metis prod_cases4)
  have run: "update_all lib index grads (r, s1, weight1, state1) = (Inr (), s', weight', state')"
    using Cons.prems(2) u by simp
  have r: "r = Inr ()"
  proof (cases r)
    case (Inl e)
    then have "update_all lib index grads (r, s1, weight1, state1) = (Inl e, s1, weight1, state1)"
      by (cases grads) simp_all
    then show ?thesis using run by simp
  qed simp
  from window_holds_update [OF Cons.prems(1) u [unfolded r]]
  obtain st1 where h: "window_holds s1 (seen @ [grad])"
    "self_curv_win_width s1 = self_curv_win_width s"
    "length (self_h_window s1) = length (self_h_window s)" "state1 = Some st1"
    by blast
  from Cons.IH [OF h(1) run [unfolded r h(4)]] h(2,3)
  show ?case by simp
qed


lemma update_no_state_sample:
  assumes "base_defaults s"
  shows "\<exists>s'. update sample_lib s 0 [w] [g] None = (Inr (), s', [w - g / 100], None)
     \<and> base_defaults s' \<and> self_iter s' = self_iter s + 1
     \<and> self_h_window s' = self_h_window s \<and> self_curv_win_width s' = self_curv_win_width s"
  using assms
  by (simp add: base_defaults_def update_def Let_def sample_lib_def mx_sgd_update_def
      update_kwargs_def update_count_def prepared_grad_def get_lr_def get_wd_def)

lemma run_no_state_sample:
  assumes "base_defaults s"
  shows "\<exists>s' w'. update_all sample_lib 0 (map (\<lambda>g. [g]) gs) (Inr (), s, [w], None)
                   = (Inr (), s', [w'], None)
     \<and> base_defaults s' \<and> self_iter s' = self_iter s + length gs
     \<and> self_h_window s' = self_h_window s \<and> self_curv_win_width s' = self_curv_win_width s"
  using assms
proof (induction gs arbitrary: s w)
  case Nil
  then show ?case by simp
next
  case (Cons g gs)
  from update_no_state_sample [OF Cons.prems, of w g] obtain s1 where
    u: "update sample_lib s 0 [w] [g] None = (Inr (), s1, [w - g / 100], None)"
    and b: "base_defaults s1" and f: "self_iter s1 = self_iter s + 1"
    "self_h_window s1 = self_h_window s" "self_curv_win_width s1 = self_curv_win_width s"
    by blast
  from Cons.IH [OF b, of "w - g / 100"] obtain s' w' where
    "update_all sample_lib 0 (map (\<lambda>g. [g]) gs) (Inr (), s1, [w - g / 100], None)
       = (Inr (), s', [w'], None)"
    "base_defaults s'" "self_iter s' = self_iter s1 + length gs"
    "self_h_window s' = self_h_window s1" "self_curv_win_width s' = self_curv_win_width s1"
    by blast
  then show ?case using u f by simp
qed

lemma update_index_error_sample:
  assumes "base_defaults s"
    and "self_curv_win_width s \<noteq> 0"
    and "length (self_h_window s) \<le> self_iter s mod self_curv_win_width s"
  shows "fst (update sample_lib s 0 [w] [g] (Some (create_state 0 [w]))) = Inl IndexError"
  using assms
  by (simp add: base_defaults_def update_def Let_def sample_lib_def mx_sgd_mom_update_def
      update_kwargs_def update_count_def prepared_grad_def get_lr_def get_wd_def
      create_state_def after_apply_def curvature_range_def)


text \<open>
  C4. An optimizer constructed with \<open>curv_win_width = 5\<close> has a window of five entries
  and the width 20 in \<open>self.curv_win_width\<close>. At step count 5 the store of
  \<open>curvature_range\<close> goes to index \<open>5 mod 20\<close> and raises \<open>IndexError\<close>, where the
  claim has it go to index \<open>5 mod 5\<close>. The step count 5 is reached: after five updates
  without a parameter state, which only count the step, the update with a parameter state
  fails with this \<open>IndexError\<close>.
\<close>

theorem curvature_range_fixed_modulus:
  "self_curv_win_width (init (default_args\<lparr>arg_curv_win_width := 5\<rparr>)) = 20
   \<and> length (self_h_window (init (default_args\<lparr>arg_curv_win_width := 5\<rparr>))) = 5
   \<and> fst (curvature_range ((init (default_args\<lparr>arg_curv_win_width := 5\<rparr>))\<lparr>self_iter := 5\<rparr>) [1])
       = Inl IndexError
   \<and> fst (update sample_lib
         (fst (snd (update_all sample_lib 0 [ [1], [1], [1], [1], [1] ]
            (Inr (), init (default_args\<lparr>arg_curv_win_width := 5\<rparr>), [1], None))))
         0
         (fst (snd (snd (update_all sample_lib 0 [ [1], [1], [1], [1], [1] ]
            (Inr (), init (default_args\<lparr>arg_curv_win_width := 5\<rparr>), [1], None)))))
         [1]
         (Some (create_state 0 [1]))) = Inl IndexError"
proof -
  let ?s0 = "init (default_args\<lparr>arg_curv_win_width := 5\<rparr>)"
  have b0: "base_defaults ?s0"
    by (simp add: base_defaults_def init_def default_args_def)
  have l: "[ [1], [1], [1], [1], [1 :: real] ] = map (\<lambda>g. [g]) [1, 1, 1, 1, 1]"
    by simp
  from run_no_state_sample [OF b0, of "[1, 1, 1, 1, 1]" 1] obtain s' w' where
    r: "update_all sample_lib 0 [ [1], [1], [1], [1], [1] ] (Inr (), ?s0, [1], None)
          = (Inr (), s', [w'], None)"
    and b: "base_defaults s'" and i: "self_iter s' = self_iter ?s0 + 5"
    and w: "self_h_window s' = self_h_window ?s0"
    and c: "self_curv_win_width s' = self_curv_win_width ?s0"
    unfolding l by auto
  have "self_curv_win_width s' \<noteq> 0"
    and "length (self_h_window s') \<le> self_iter s' mod self_curv_win_width s'"
    by (simp_all add: i w c init_def default_args_def)
  from update_index_error_sample [OF b this, of w' 1]
  have "fst (update sample_lib
         (fst (snd (update_all sample_lib 0 [ [1], [1], [1], [1], [1] ] (Inr (), ?s0, [1], None))))
         0
         (fst (snd (snd (update_all sample_lib 0 [ [1], [1], [1], [1], [1] ]
            (Inr (), ?s0, [1], None)))))
         [1]
         (Some (create_state 0 [1]))) = Inl IndexError"
    unfolding r by (simp add: create_state_def)
  moreover have "self_curv_win_width ?s0 = 20 \<and> length (self_h_window ?s0) = 5
     \<and> fst (curvature_range (?s0\<lparr>self_iter := 5\<rparr>) [1]) = Inl IndexError"
    by (simp add: curvature_range_def init_def default_args_def Let_def)
  ultimately show ?thesis by blast
qed

text \<open>
  With the default width the modulus and the size of the window agree, and a run of
  updates that all succeed leaves the step count at the number of gradients and each of
  the last 20 squared norms at its place.
\<close>

lemma window_after_run_default_width:
  assumes "arg_curv_win_width a = 20"
    and "update_all lib index grads (Inr (), init a, weight, Some st) = (Inr (), s', weight', state')"
  shows "self_iter s' = length grads \<and> length (self_h_window s') = 20
     \<and> (\<forall>k < length grads. length grads \<le> k + 20 \<longrightarrow>
           self_h_window s' ! (k mod 20) = nd_norm (grads ! k) ^ 2)"
proof -
  have "window_holds (init a) []" by (simp add: window_holds_def init_def)
  from window_holds_run [OF this assms(2)]
  have h: "window_holds s' grads" "self_curv_win_width s' = 20" "length (self_h_window s') = 20"
    using assms(1) by (simp_all add: init_def)
  from h(1) have "self_iter s' = length grads
     \<and> (\<forall>k < length grads. length grads \<le> k + 20 \<longrightarrow>
           self_h_window s' ! (k mod 20) = nd_norm (grads ! k) ^ 2)"
    unfolding window_holds_def h(2) .
  then show ?thesis using h(3) by blast
qed

section \<open>The order of the curvature bounds\<close>




section \<open>The update\<close>






end
